theory Spec2Isabelle
  imports Complex_Main "HOL-Library.Sublist" "HOL-Library.AList"
begin

section \<open>Python values\<close>

text \<open>
  A Python \<open>str\<close> is modelled as a \<^typ>\<open>string\<close>: a list of code points, each below 256
  (the Latin-1 range of Unicode). \<open>len\<close> is \<^const>\<open>length\<close>, \<open>+\<close> is \<open>@\<close>, and
  \<open>sub in s\<close> is \<^const>\<open>sublist\<close>. A Python \<open>int\<close> is an \<^typ>\<open>int\<close>. A Python \<open>float\<close>
  is the \<^typ>\<open>real\<close> number it stands for; NaN and the infinities are outside the
  model. Comparing two floats compares these numbers. Where the code multiplies,
  divides, subtracts or sums floats (\<open>estimate_cost\<close>, \<open>get_summary\<close>) the operation is
  the interpreter's, which rounds its result to a float, and is a parameter of the
  model. The one addition in \<open>run\<close> adds two costs that were rounded to 6 decimals and
  is taken as it is.
\<close>

subsection \<open>Strings\<close>

text \<open>\<open>str.isspace\<close> on one code point below 256.\<close>

definition isspace :: "char \<Rightarrow> bool" where
  "isspace c =
     (let n = (of_char c :: nat)
      in (9 \<le> n \<and> n \<le> 13) \<or> (28 \<le> n \<and> n \<le> 32) \<or> n = 133 \<or> n = 160)"

definition lstrip :: "string \<Rightarrow> string" where
  "lstrip s = dropWhile isspace s"

definition rstrip :: "string \<Rightarrow> string" where
  "rstrip s = rev (dropWhile isspace (rev s))"

definition strip :: "string \<Rightarrow> string" where
  "strip s = lstrip (rstrip s)"

text \<open>\<open>str.lower\<close>: A-Z and the upper-case letters of Latin-1 move up by 32.\<close>

definition lower_char :: "char \<Rightarrow> char" where
  "lower_char c =
     (let n = (of_char c :: nat)
      in if (65 \<le> n \<and> n \<le> 90) \<or> (192 \<le> n \<and> n \<le> 222 \<and> n \<noteq> 215)
         then char_of (n + 32) else c)"

definition lower :: "string \<Rightarrow> string" where
  "lower s = map lower_char s"

text \<open>\<open>s.find(sub)\<close> and \<open>s.rfind(sub)\<close>: the lowest and the highest index at which
  \<open>sub\<close> occurs, and \<open>-1\<close> when it does not occur.\<close>

fun find_from :: "string \<Rightarrow> string \<Rightarrow> int \<Rightarrow> int" where
  "find_from sub [] i = (if sub = [] then i else - 1)"
| "find_from sub (x # xs) i =
     (if prefix sub (x # xs) then i else find_from sub xs (i + 1))"

definition str_find :: "string \<Rightarrow> string \<Rightarrow> int" where
  "str_find s sub = find_from sub s 0"

fun rfind_from :: "string \<Rightarrow> string \<Rightarrow> int \<Rightarrow> int \<Rightarrow> int" where
  "rfind_from sub [] i found = (if sub = [] then i else found)"
| "rfind_from sub (x # xs) i found =
     rfind_from sub xs (i + 1) (if prefix sub (x # xs) then i else found)"

definition str_rfind :: "string \<Rightarrow> string \<Rightarrow> int" where
  "str_rfind s sub = rfind_from sub s 0 (- 1)"

text \<open>Slices \<open>s[i:j]\<close> and \<open>s[:j]\<close>: a negative index counts from the end, and every
  index is clamped to the string.\<close>

definition slice_index :: "nat \<Rightarrow> int \<Rightarrow> nat" where
  "slice_index n i = (if i < 0 then nat (int n + i) else min n (nat i))"

definition slice :: "string \<Rightarrow> int \<Rightarrow> int \<Rightarrow> string" where
  "slice s i j =
     (let a = slice_index (length s) i; b = slice_index (length s) j
      in take (b - a) (drop a s))"

definition slice_to :: "string \<Rightarrow> int \<Rightarrow> string" where
  "slice_to s j = take (slice_index (length s) j) s"

text \<open>\<open>str(n)\<close> of an integer, as an f-string formats it.\<close>

fun str_nat :: "nat \<Rightarrow> string" where
  "str_nat n =
     (if n < 10 then [char_of (48 + n)]
      else str_nat (n div 10) @ [char_of (48 + n mod 10)])"

declare str_nat.simps [simp del]

definition str_int :: "int \<Rightarrow> string" where
  "str_int i = (if i < 0 then CHR ''-'' # str_nat (nat (- i)) else str_nat (nat i))"

subsection \<open>Exceptions\<close>

datatype error =
    InputGuardError string
  | KeyError string
  | AttributeError
  | TypeError
  | ValueError
  | OverflowError
  | CapabilityError string

section \<open>Configuration\<close>

text \<open>
  The YAML files \<open>configs/config.yaml\<close> and \<open>configs/prompts.yaml\<close> are read at start-up.
  The keys the code reads with \<open>.get(key, default)\<close> are optional here; the tiers are the
  keys of \<open>models\<close>.
\<close>

record model_config =
  name :: string
  cost_per_1k_input :: "real option"
  cost_per_1k_output :: "real option"

record config =
  models :: "string \<rightharpoonup> model_config"
  routing_confidence_threshold :: real
  guardrails_max_input_length :: "int option"
  guardrails_max_output_length :: "int option"

record prompts =
  router_system :: string
  agent_system :: string

section \<open>Input guard\<close>

record InputGuard =
  max_input_length :: int

definition InputGuard_init :: "config \<Rightarrow> InputGuard" where
  "InputGuard_init cfg =
     \<lparr>max_input_length =
        (case guardrails_max_input_length cfg of None \<Rightarrow> 10000 | Some n \<Rightarrow> n)\<rparr>"

definition injection_patterns :: "string list" where
  "injection_patterns =
     [''ignore previous instructions'',
      ''ignore all instructions'',
      ''disregard your instructions'',
      ''you are now'',
      ''new instructions:'']"

text \<open>The three ways \<open>validate\<close> raises \<open>InputGuardError\<close>, told apart by the message.\<close>

definition EmptyInput :: error where
  "EmptyInput = InputGuardError ''Query cannot be empty.''"

definition TooLong :: "int \<Rightarrow> error" where
  "TooLong n =
     InputGuardError (''Query exceeds maximum length of '' @ str_int n @ '' characters.'')"

definition DisallowedPattern :: error where
  "DisallowedPattern = InputGuardError ''Query contains disallowed patterns.''"

text \<open>The loop over the patterns: it raises at the first one that occurs.\<close>

fun scan_patterns :: "string list \<Rightarrow> string \<Rightarrow> error + unit" where
  "scan_patterns [] query_lower = Inr ()"
| "scan_patterns (pattern # rest) query_lower =
     (if sublist pattern query_lower then Inl DisallowedPattern
      else scan_patterns rest query_lower)"

definition validate :: "InputGuard \<Rightarrow> string \<Rightarrow> error + string" where
  "validate self query =
     (if query = [] \<or> strip query = [] then Inl EmptyInput
      else if int (length query) > max_input_length self
      then Inl (TooLong (max_input_length self))
      else case scan_patterns injection_patterns (lower query) of
             Inl e \<Rightarrow> Inl e
           | Inr _ \<Rightarrow> Inr (strip query))"

section \<open>Output guard\<close>

record OutputGuard =
  max_output_length :: int

definition OutputGuard_init :: "config \<Rightarrow> OutputGuard" where
  "OutputGuard_init cfg =
     \<lparr>max_output_length =
        (case guardrails_max_output_length cfg of None \<Rightarrow> 4096 | Some n \<Rightarrow> n)\<rparr>"

text \<open>
  \<open>re.sub(start_marker + ".*?" + end_marker, "", text, flags=re.DOTALL)\<close> for two literal
  markers: scanning from the left, a start marker that has an end marker behind it is
  removed together with everything up to the first such end marker, and the scan goes
  on behind it; any other character is kept.
\<close>

fun find_after :: "string \<Rightarrow> string \<Rightarrow> string option" where
  "find_after end_marker [] = (if end_marker = [] then Some [] else None)"
| "find_after end_marker (x # xs) =
     (if prefix end_marker (x # xs) then Some (drop (length end_marker) (x # xs))
      else find_after end_marker xs)"

lemma find_after_length: "find_after end_marker s = Some r \<Longrightarrow> length r \<le> length s"
  by (induction s) (auto split: if_splits)

function re_sub_span :: "string \<Rightarrow> string \<Rightarrow> string \<Rightarrow> string" where
  "re_sub_span start_marker end_marker [] = []"
| "re_sub_span start_marker end_marker (x # xs) =
     (if prefix start_marker (x # xs) \<and> start_marker \<noteq> []
      then (case find_after end_marker (drop (length start_marker) (x # xs)) of
              None \<Rightarrow> x # re_sub_span start_marker end_marker xs
            | Some rest \<Rightarrow> re_sub_span start_marker end_marker rest)
      else x # re_sub_span start_marker end_marker xs)"
  by pat_completeness auto
termination
proof (relation "measure (\<lambda>(start_marker, end_marker, s). length s)")
  fix start_marker end_marker :: string and x xs rest
  assume "prefix start_marker (x # xs) \<and> start_marker \<noteq> []"
    and "find_after end_marker (drop (length start_marker) (x # xs)) = Some rest"
  then have "length rest \<le> length (x # xs) - length start_marker"
    and "0 < length start_marker"
    using find_after_length [of end_marker "drop (length start_marker) (x # xs)" rest]
    by simp_all
  then show "((start_marker, end_marker, rest), (start_marker, end_marker, x # xs))
      \<in> measure (\<lambda>(start_marker, end_marker, s). length s)"
    by (cases start_marker) simp_all
qed simp_all

definition remove_instruction_leakage :: "string \<Rightarrow> string" where
  "remove_instruction_leakage text =
     re_sub_span ''<<SYS>>'' ''<</SYS>>''
       (re_sub_span ''[INST]'' ''[/INST]''
          (re_sub_span ''<|system|>'' ''<|/system|>'' text))"

definition apology :: string where
  "apology = ''I wasn't able to generate a response. Please try again.''"

definition truncation_marker :: string where
  "truncation_marker = ''[Response truncated due to length.]''"

text \<open>\<open>sanitize\<close>; a missing output (\<open>None\<close>) is falsy like the empty string.\<close>

definition sanitize :: "OutputGuard \<Rightarrow> string option \<Rightarrow> string" where
  "sanitize self output =
     (case output of
        None \<Rightarrow> apology
      | Some out \<Rightarrow>
          if out = [] then apology
          else
            let out1 = strip out;
                out2 = remove_instruction_leakage out1
            in if int (length out2) > max_output_length self
               then
                 let out3 = slice_to out2 (max_output_length self - 50);
                     last_sentence = str_rfind out3 ''.'';
                     out4 = (if real_of_int last_sentence > real (length out3) * 0.8
                             then slice_to out3 (last_sentence + 1) else out3)
                 in out4 @ ''\<newline>\<newline>'' @ truncation_marker
               else out2)"

section \<open>JSON values and the interpreter's own functions\<close>

text \<open>
  What \<open>json.loads\<close> returns: \<open>None\<close>, a \<open>bool\<close>, an \<open>int\<close>, a \<open>float\<close>, a \<open>str\<close>, a
  \<open>list\<close> or a \<open>dict\<close> (its items in insertion order, each key once). \<open>JNull\<close> is
  Python's \<open>None\<close>.
\<close>

datatype json =
    JNull
  | JBool bool
  | JInt int
  | JFloat real
  | JStr string
  | JArr "json list"
  | JObj "(string \<times> json) list"

text \<open>
  The library functions and services the code calls are parameters of the model:
  \<^item> \<open>json_loads\<close> is \<open>json.loads\<close>, \<open>None\<close> when it raises \<open>JSONDecodeError\<close>;
  \<^item> \<open>float_of_str\<close> is \<open>float\<close> on a \<open>str\<close>, \<open>None\<close> when it raises \<open>ValueError\<close>;
  \<^item> \<open>tokenizer_encode\<close> is the \<open>cl100k_base\<close> encoding of tiktoken;
  \<^item> \<open>model_ainvoke\<close> is the content of the answer of the hosted model of a tier to a
    list of (role, text) messages, or the exception it raises; it may depend on the
    calls made before;
  \<^item> \<open>float_add\<close>, \<open>float_sub\<close>, \<open>float_mul\<close> and \<open>float_div\<close> are \<open>+\<close>, \<open>-\<close>, \<open>*\<close> and
    \<open>/\<close> on floats, \<open>int_truediv\<close> is \<open>/\<close> on two \<open>int\<close>s, and \<open>float_sum\<close> is the
    built-in \<open>sum\<close> on floats.
\<close>

type_synonym llm_call = "string \<times> (string \<times> string) list"

record runtime =
  json_loads :: "string \<Rightarrow> json option"
  float_of_str :: "string \<Rightarrow> real option"
  tokenizer_encode :: "string \<Rightarrow> nat list"
  model_ainvoke :: "llm_call list \<Rightarrow> string \<Rightarrow> (string \<times> string) list \<Rightarrow> error + string"
  float_add :: "real \<Rightarrow> real \<Rightarrow> real"
  float_sub :: "real \<Rightarrow> real \<Rightarrow> real"
  float_mul :: "real \<Rightarrow> real \<Rightarrow> real"
  float_div :: "real \<Rightarrow> real \<Rightarrow> real"
  int_truediv :: "int \<Rightarrow> int \<Rightarrow> real"
  float_sum :: "real list \<Rightarrow> real"

text \<open>\<open>round(x, ndigits)\<close> rounds the number the float \<open>x\<close> stands for to the nearest
  multiple of \<open>10 ^ -ndigits\<close>, a tie to the even one.\<close>

definition py_round :: "real \<Rightarrow> nat \<Rightarrow> real" where
  "py_round x ndigits =
     (let scaled = x * 10 ^ ndigits;
          f = \<lfloor>scaled\<rfloor>;
          d = scaled - of_int f
      in of_int (if d < 1 / 2 then f
                 else if 1 / 2 < d then f + 1
                 else if even f then f else f + 1) / 10 ^ ndigits)"

text \<open>\<open>float(v)\<close> of a decoded value. An \<open>int\<close> that rounds to \<open>2 ^ 1024\<close> or beyond is
  too large for a \<open>float\<close>.\<close>

definition py_float :: "runtime \<Rightarrow> json \<Rightarrow> error + real" where
  "py_float rt v =
     (case v of
        JFloat f \<Rightarrow> Inr f
      | JInt i \<Rightarrow> if \<bar>i\<bar> < 2 ^ 1024 - 2 ^ 970 then Inr (of_int i) else Inl OverflowError
      | JBool b \<Rightarrow> Inr (if b then 1 else 0)
      | JStr s \<Rightarrow> (case float_of_str rt s of None \<Rightarrow> Inl ValueError | Some f \<Rightarrow> Inr f)
      | JNull \<Rightarrow> Inl TypeError
      | JArr _ \<Rightarrow> Inl TypeError
      | JObj _ \<Rightarrow> Inl TypeError)"

text \<open>\<open>v.get(key, default)\<close>: only a \<open>dict\<close> has the method.\<close>

definition py_get :: "json \<Rightarrow> string \<Rightarrow> json \<Rightarrow> error + json" where
  "py_get v key dflt =
     (case v of
        JObj items \<Rightarrow> Inr (case map_of items key of None \<Rightarrow> dflt | Some x \<Rightarrow> x)
      | _ \<Rightarrow> Inl AttributeError)"

section \<open>Helpers\<close>

definition code_fence :: string where
  "code_fence = ''```''"

definition safe_json_parse :: "runtime \<Rightarrow> string \<Rightarrow> json" where
  "safe_json_parse rt text0 =
     (let text = strip text0
      in case json_loads rt text of
           Some v \<Rightarrow> v
         | None \<Rightarrow>
             if sublist code_fence text
             then
               let start = str_find text ''{'';
                   end_ix = str_rfind text ''}'' + 1
               in if start \<noteq> - 1 \<and> end_ix > start
                  then (case json_loads rt (slice text start end_ix) of
                          Some v \<Rightarrow> v
                        | None \<Rightarrow> JNull)
                  else JNull
             else JNull)"

section \<open>LLM client\<close>

record LLMResponse =
  content :: string
  model_name :: string
  input_tokens :: int
  output_tokens :: int
  total_tokens :: int
  estimated_cost_usd :: real

definition estimate_tokens :: "runtime \<Rightarrow> string \<Rightarrow> int" where
  "estimate_tokens rt text = int (length (tokenizer_encode rt text))"

definition estimate_cost ::
  "runtime \<Rightarrow> config \<Rightarrow> string \<Rightarrow> int \<Rightarrow> int \<Rightarrow> error + real" where
  "estimate_cost rt cfg tier n_in n_out =
     (case models cfg tier of
        None \<Rightarrow> Inl (KeyError tier)
      | Some model_config \<Rightarrow>
          let input_cost = float_mul rt (int_truediv rt n_in 1000)
                (case cost_per_1k_input model_config of None \<Rightarrow> 0 | Some r \<Rightarrow> r);
              output_cost = float_mul rt (int_truediv rt n_out 1000)
                (case cost_per_1k_output model_config of None \<Rightarrow> 0 | Some r \<Rightarrow> r)
          in Inr (py_round (float_add rt input_cost output_cost) 6))"

text \<open>
  \<open>invoke\<close> threads the list of the calls made to the hosted models so far and appends
  its own when it reaches \<open>model.ainvoke\<close>. The cache of model handles has no effect on
  what is returned and is left out.
\<close>

definition invoke ::
  "runtime \<Rightarrow> config \<Rightarrow> string \<Rightarrow> string \<Rightarrow> string \<Rightarrow> llm_call list
     \<Rightarrow> (error + LLMResponse) \<times> llm_call list" where
  "invoke rt cfg tier prompt system_prompt calls =
     (case models cfg tier of
        None \<Rightarrow> (Inl (KeyError tier), calls)
      | Some model_config \<Rightarrow>
          let messages = (if system_prompt \<noteq> [] then [(''system'', system_prompt)] else [])
                           @ [(''human'', prompt)];
              n_in = estimate_tokens rt (system_prompt @ prompt);
              calls' = calls @ [(tier, messages)]
          in (case model_ainvoke rt calls tier messages of
                Inl e \<Rightarrow> (Inl e, calls')
              | Inr text \<Rightarrow>
                  (let n_out = estimate_tokens rt text
                   in (case estimate_cost rt cfg tier n_in n_out of
                         Inl e \<Rightarrow> (Inl e, calls')
                       | Inr cost \<Rightarrow>
                           (Inr \<lparr>content = text,
                                 model_name = name model_config,
                                 input_tokens = n_in,
                                 output_tokens = n_out,
                                 total_tokens = n_in + n_out,
                                 estimated_cost_usd = cost\<rparr>, calls')))))"

section \<open>Query router\<close>

record RoutingDecision =
  complexity :: json
  confidence :: real
  reason :: json
  routed_to :: string

record QueryRouter =
  confidence_threshold :: real

definition QueryRouter_init :: "config \<Rightarrow> QueryRouter" where
  "QueryRouter_init cfg = \<lparr>confidence_threshold = routing_confidence_threshold cfg\<rparr>"

text \<open>The part of \<open>classify\<close> behind the router call: from the parsed answer to the
  decision.\<close>

definition decide :: "runtime \<Rightarrow> QueryRouter \<Rightarrow> json \<Rightarrow> error + RoutingDecision" where
  "decide rt self parsed =
     (if parsed = JNull
      then Inr \<lparr>complexity = JStr ''COMPLEX'',
                confidence = 0.5,
                reason = JStr ''router parse failure - defaulting to large model'',
                routed_to = ''large''\<rparr>
      else
        case py_get parsed ''complexity'' (JStr ''COMPLEX'') of
          Inl e \<Rightarrow> Inl e
        | Inr cx \<Rightarrow>
            (case py_get parsed ''confidence'' (JFloat 0.5) of
               Inl e \<Rightarrow> Inl e
             | Inr cv \<Rightarrow>
                 (case py_float rt cv of
                    Inl e \<Rightarrow> Inl e
                  | Inr conf \<Rightarrow>
                      (case py_get parsed ''reason'' (JStr []) of
                         Inl e \<Rightarrow> Inl e
                       | Inr rsn \<Rightarrow>
                           Inr \<lparr>complexity = cx,
                                confidence = conf,
                                reason = rsn,
                                routed_to =
                                  (if cx = JStr ''COMPLEX'' \<or> conf < confidence_threshold self
                                   then ''large'' else ''small'')\<rparr>))))"

definition classify ::
  "runtime \<Rightarrow> config \<Rightarrow> prompts \<Rightarrow> QueryRouter \<Rightarrow> string \<Rightarrow> llm_call list
     \<Rightarrow> (error + RoutingDecision \<times> LLMResponse) \<times> llm_call list" where
  "classify rt cfg pr self query calls =
     (case invoke rt cfg ''router'' query (router_system pr) calls of
        (Inl e, calls') \<Rightarrow> (Inl e, calls')
      | (Inr router_response, calls') \<Rightarrow>
          (case decide rt self (safe_json_parse rt (content router_response)) of
             Inl e \<Rightarrow> (Inl e, calls')
           | Inr decision \<Rightarrow> (Inr (decision, router_response), calls')))"

section \<open>Pipeline\<close>

text \<open>The dictionary \<open>run\<close> returns.\<close>

record outcome =
  res_answer :: string
  res_model_used :: string
  res_complexity :: json
  res_confidence :: real
  res_tokens_used :: int
  res_estimated_cost_usd :: real

text \<open>Step 2 of \<open>run\<close>: the tier, the complexity label, the confidence, and the tokens
  and the cost of routing.\<close>

definition route ::
  "runtime \<Rightarrow> config \<Rightarrow> prompts \<Rightarrow> string \<Rightarrow> string option \<Rightarrow> llm_call list
     \<Rightarrow> (error + string \<times> json \<times> real \<times> int \<times> real) \<times> llm_call list" where
  "route rt cfg pr query force_model calls =
     (if force_model = Some ''large'' \<or> force_model = Some ''small''
      then (Inr (case force_model of Some tier \<Rightarrow> tier | None \<Rightarrow> [],
                 JStr ''FORCED'', 1, 0, 0), calls)
      else
        case classify rt cfg pr (QueryRouter_init cfg) query calls of
          (Inl e, calls') \<Rightarrow> (Inl e, calls')
        | (Inr (decision, router_response), calls') \<Rightarrow>
            (Inr (routed_to decision, complexity decision, confidence decision,
                  total_tokens router_response, estimated_cost_usd router_response), calls'))"

definition full_prompt :: "string \<Rightarrow> string option \<Rightarrow> string" where
  "full_prompt query context =
     (case context of
        None \<Rightarrow> query
      | Some c \<Rightarrow>
          if c = [] then query
          else ''Context:\<newline>'' @ c @ ''\<newline>\<newline>Question:\<newline>'' @ query)"

definition run ::
  "runtime \<Rightarrow> config \<Rightarrow> prompts \<Rightarrow> string \<Rightarrow> string option \<Rightarrow> string option
     \<Rightarrow> llm_call list \<Rightarrow> (error + outcome) \<times> llm_call list" where
  "run rt cfg pr query context force_model calls =
     (case validate (InputGuard_init cfg) query of
        Inl e \<Rightarrow> (Inl e, calls)
      | Inr _ \<Rightarrow>
          (case route rt cfg pr query force_model calls of
             (Inl e, calls') \<Rightarrow> (Inl e, calls')
           | (Inr (tier, cx, conf, routing_tokens, routing_cost), calls') \<Rightarrow>
               (case invoke rt cfg tier (full_prompt query context) (agent_system pr) calls' of
                  (Inl e, calls'') \<Rightarrow> (Inl e, calls'')
                | (Inr response, calls'') \<Rightarrow>
                    (Inr \<lparr>res_answer = sanitize (OutputGuard_init cfg) (Some (content response)),
                          res_model_used = model_name response,
                          res_complexity = cx,
                          res_confidence = conf,
                          res_tokens_used = routing_tokens + total_tokens response,
                          res_estimated_cost_usd =
                            py_round (routing_cost + estimated_cost_usd response) 6\<rparr>,
                     calls''))))"

section \<open>Cost tracker\<close>

record CostRecord =
  rec_model_used :: string
  rec_tokens_used :: int
  rec_estimated_cost_usd :: real
  rec_complexity :: json

record summary =
  total_requests :: int
  sum_total_tokens :: int
  total_cost_usd :: real
  routed_to_small :: int
  routed_to_large :: int
  cost_savings_pct :: real

text \<open>\<open>CostTracker.record\<close> appends to the log.\<close>

definition record_result :: "CostRecord list \<Rightarrow> outcome \<Rightarrow> CostRecord list" where
  "record_result records result =
     records @ [\<lparr>rec_model_used = res_model_used result,
                  rec_tokens_used = res_tokens_used result,
                  rec_estimated_cost_usd = res_estimated_cost_usd result,
                  rec_complexity = res_complexity result\<rparr>]"

definition get_summary :: "runtime \<Rightarrow> config \<Rightarrow> CostRecord list \<Rightarrow> error + summary" where
  "get_summary rt cfg records =
     (if records = []
      then Inr \<lparr>total_requests = 0, sum_total_tokens = 0, total_cost_usd = 0,
                routed_to_small = 0, routed_to_large = 0, cost_savings_pct = 0\<rparr>
      else
        let tokens = sum_list (map rec_tokens_used records);
            actual_cost = float_sum rt (map rec_estimated_cost_usd records);
            routed_small =
              int (length (filter (\<lambda>r. sublist ''flash'' (lower (rec_model_used r))) records));
            routed_large = int (length records) - routed_small
        in case models cfg ''large'' of
             None \<Rightarrow> Inl (KeyError ''large'')
           | Some large_config \<Rightarrow>
               let hypothetical =
                     float_div rt
                       (float_mul rt (int_truediv rt tokens 1000)
                          (float_add rt
                             (case cost_per_1k_input large_config of None \<Rightarrow> 0 | Some r \<Rightarrow> r)
                             (case cost_per_1k_output large_config of None \<Rightarrow> 0 | Some r \<Rightarrow> r)))
                       2;
                   savings_pct =
                     (if hypothetical > 0
                      then py_round
                             (float_mul rt
                                (float_div rt (float_sub rt hypothetical actual_cost) hypothetical)
                                100) 1
                      else 0)
               in Inr \<lparr>total_requests = int (length records),
                        sum_total_tokens = tokens,
                        total_cost_usd = py_round actual_cost 6,
                        routed_to_small = routed_small,
                        routed_to_large = routed_large,
                        cost_savings_pct = max savings_pct 0\<rparr>)"

section \<open>A concrete runtime\<close>

text \<open>
  For the concrete runs below the parameters are instantiated: a decoder for JSON
  texts standing for \<open>json.loads\<close>, a reader of plain decimal numbers standing for
  \<open>float\<close>, one token per character standing for the tokenizer, hosted models that
  answer with fixed texts, and the arithmetic of the real numbers standing for the
  arithmetic of floats. The decoder follows the grammar of \<open>json.loads\<close> except that
  it rejects \<open>\u\<close> escapes and the literals \<open>NaN\<close> and \<open>Infinity\<close>. No general theorem
  depends on any of them.
\<close>

definition json_ws :: "char \<Rightarrow> bool" where
  "json_ws c = (c = CHR '' '' \<or> c = CHR 0x09 \<or> c = CHR 0x0A \<or> c = CHR 0x0D)"

definition skip_ws :: "string \<Rightarrow> string" where
  "skip_ws s = dropWhile json_ws s"

definition is_digit :: "char \<Rightarrow> bool" where
  "is_digit c = (48 \<le> (of_char c :: nat) \<and> (of_char c :: nat) \<le> 57)"

definition digits_value :: "string \<Rightarrow> nat" where
  "digits_value ds = foldl (\<lambda>a c. 10 * a + (of_char c - 48)) 0 ds"

definition unescape :: "char \<Rightarrow> char option" where
  "unescape e =
     (if e = CHR 0x22 \<or> e = CHR 0x5C \<or> e = CHR ''/'' then Some e
      else if e = CHR ''b'' then Some (CHR 0x08)
      else if e = CHR ''f'' then Some (CHR 0x0C)
      else if e = CHR ''n'' then Some (CHR 0x0A)
      else if e = CHR ''r'' then Some (CHR 0x0D)
      else if e = CHR ''t'' then Some (CHR 0x09)
      else None)"

fun scan_string :: "string \<Rightarrow> (string \<times> string) option" where
  "scan_string [] = None"
| "scan_string (c # r) =
     (if c = CHR 0x22 then Some ([], r)
      else if c = CHR 0x5C then
        (case r of
           [] \<Rightarrow> None
         | e # r' \<Rightarrow>
             (case unescape e of
                None \<Rightarrow> None
              | Some ch \<Rightarrow> map_option (apfst ((#) ch)) (scan_string r')))
      else if (of_char c :: nat) < 32 then None
      else map_option (apfst ((#) c)) (scan_string r))"

definition scan_number :: "string \<Rightarrow> (json \<times> string) option" where
  "scan_number s =
     (let neg = (s \<noteq> [] \<and> hd s = CHR ''-'');
          s1 = (if neg then tl s else s);
          ip = takeWhile is_digit s1;
          s2 = dropWhile is_digit s1;
          has_frac = (s2 \<noteq> [] \<and> hd s2 = CHR ''.'');
          fp = (if has_frac then takeWhile is_digit (tl s2) else []);
          s3 = (if has_frac then dropWhile is_digit (tl s2) else s2);
          has_exp = (s3 \<noteq> [] \<and> (hd s3 = CHR ''e'' \<or> hd s3 = CHR ''E''));
          s4 = (if has_exp then tl s3 else s3);
          eneg = (has_exp \<and> s4 \<noteq> [] \<and> hd s4 = CHR ''-'');
          s5 = (if has_exp \<and> s4 \<noteq> [] \<and> (hd s4 = CHR ''-'' \<or> hd s4 = CHR ''+'')
                then tl s4 else s4);
          ep = (if has_exp then takeWhile is_digit s5 else []);
          s6 = (if has_exp then dropWhile is_digit s5 else s3);
          mantissa = real (digits_value (ip @ fp)) / 10 ^ length fp;
          scaled = (if eneg then mantissa / 10 ^ digits_value ep
                    else mantissa * 10 ^ digits_value ep)
      in if ip = [] \<or> (1 < length ip \<and> hd ip = CHR ''0'')
            \<or> (has_frac \<and> fp = []) \<or> (has_exp \<and> ep = [])
         then None
         else if \<not> has_frac \<and> \<not> has_exp
         then Some (JInt (if neg then - int (digits_value ip) else int (digits_value ip)), s6)
         else Some (JFloat (if neg then - scaled else scaled), s6))"

fun scan_value :: "nat \<Rightarrow> string \<Rightarrow> (json \<times> string) option"
  and scan_array :: "nat \<Rightarrow> json list \<Rightarrow> string \<Rightarrow> (json \<times> string) option"
  and scan_object :: "nat \<Rightarrow> (string \<times> json) list \<Rightarrow> string \<Rightarrow> (json \<times> string) option"
where
  "scan_value 0 s = None"
| "scan_value (Suc n) s =
     (case s of
        [] \<Rightarrow> None
      | c # r \<Rightarrow>
          if c = CHR ''{'' then
            (case skip_ws r of
               [] \<Rightarrow> None
             | d # r' \<Rightarrow> if d = CHR ''}'' then Some (JObj [], r') else scan_object n [] (d # r'))
          else if c = CHR ''['' then
            (case skip_ws r of
               [] \<Rightarrow> None
             | d # r' \<Rightarrow> if d = CHR '']'' then Some (JArr [], r') else scan_array n [] (d # r'))
          else if c = CHR 0x22 then map_option (apfst JStr) (scan_string r)
          else if prefix ''null'' s then Some (JNull, drop 4 s)
          else if prefix ''true'' s then Some (JBool True, drop 4 s)
          else if prefix ''false'' s then Some (JBool False, drop 5 s)
          else scan_number s)"
| "scan_array 0 acc s = None"
| "scan_array (Suc n) acc s =
     (case scan_value n s of
        None \<Rightarrow> None
      | Some (v, r) \<Rightarrow>
          (case skip_ws r of
             [] \<Rightarrow> None
           | d # r' \<Rightarrow>
               if d = CHR '']'' then Some (JArr (acc @ [v]), r')
               else if d = CHR '','' then scan_array n (acc @ [v]) (skip_ws r')
               else None))"
| "scan_object 0 acc s = None"
| "scan_object (Suc n) acc s =
     (case s of
        [] \<Rightarrow> None
      | q # r \<Rightarrow>
          if q \<noteq> CHR 0x22 then None
          else
            (case scan_string r of
               None \<Rightarrow> None
             | Some (k, r1) \<Rightarrow>
                 (case skip_ws r1 of
                    [] \<Rightarrow> None
                  | col # r2 \<Rightarrow>
                      if col \<noteq> CHR '':'' then None
                      else
                        (case scan_value n (skip_ws r2) of
                           None \<Rightarrow> None
                         | Some (v, r3) \<Rightarrow>
                             (case skip_ws r3 of
                                [] \<Rightarrow> None
                              | d # r4 \<Rightarrow>
                                  if d = CHR ''}'' then Some (JObj (AList.update k v acc), r4)
                                  else if d = CHR '','' then
                                    scan_object n (AList.update k v acc) (skip_ws r4)
                                  else None)))))"

definition decode_json :: "string \<Rightarrow> json option" where
  "decode_json s =
     (case scan_value (Suc (length s)) (skip_ws s) of
        None \<Rightarrow> None
      | Some (v, r) \<Rightarrow> if skip_ws r = [] then Some v else None)"

definition decode_float :: "string \<Rightarrow> real option" where
  "decode_float s =
     (case scan_number (strip s) of
        Some (JInt i, []) \<Rightarrow> Some (of_int i)
      | Some (JFloat f, []) \<Rightarrow> Some f
      | _ \<Rightarrow> None)"

definition sample_runtime :: "string \<Rightarrow> string \<Rightarrow> runtime" where
  "sample_runtime router_text answer_text =
     \<lparr>json_loads = decode_json,
      float_of_str = decode_float,
      tokenizer_encode = map of_char,
      model_ainvoke = (\<lambda>calls tier messages.
         Inr (if tier = ''router'' then router_text else answer_text)),
      float_add = (\<lambda>a b. a + b),
      float_sub = (\<lambda>a b. a - b),
      float_mul = (\<lambda>a b. a * b),
      float_div = (\<lambda>a b. a / b),
      int_truediv = (\<lambda>a b. of_int a / of_int b),
      float_sum = sum_list\<rparr>"

definition sample_config :: config where
  "sample_config =
     \<lparr>models =
        [''router'' \<mapsto> \<lparr>name = ''gemini-1.5-flash'',
                        cost_per_1k_input = Some (1 / 1000), cost_per_1k_output = Some (2 / 1000)\<rparr>,
         ''small'' \<mapsto> \<lparr>name = ''gemini-1.5-flash'',
                       cost_per_1k_input = Some (1 / 1000), cost_per_1k_output = Some (2 / 1000)\<rparr>,
         ''large'' \<mapsto> \<lparr>name = ''gemini-1.5-pro'',
                       cost_per_1k_input = Some (10 / 1000), cost_per_1k_output = Some (30 / 1000)\<rparr>],
      routing_confidence_threshold = 0.7,
      guardrails_max_input_length = None,
      guardrails_max_output_length = None\<rparr>"

definition sample_prompts :: prompts where
  "sample_prompts = \<lparr>router_system = ''Classify.'', agent_system = ''Answer.''\<rparr>"

section \<open>Facts about the string functions\<close>

lemma strip_Nil: "strip [] = []"
  by (simp add: strip_def lstrip_def rstrip_def)

lemma strip_all_space:
  assumes "\<forall>c\<in>set s. isspace c"
  shows "strip s = []"
proof -
  have blank: "dropWhile isspace (rev s) = []"
    using assms by (metis dropWhile_eq_Nil_conv set_rev)
  show ?thesis
    unfolding strip_def lstrip_def rstrip_def blank by simp
qed

lemma find_from_first:
  "c \<notin> set a \<Longrightarrow> find_from [c] (a @ c # b) i = i + int (length a)"
  by (induction a arbitrary: i) auto

lemma str_find_first: "c \<notin> set a \<Longrightarrow> str_find (a @ c # b) [c] = int (length a)"
  by (simp add: str_find_def find_from_first)

lemma rfind_from_absent: "c \<notin> set s \<Longrightarrow> rfind_from [c] s i found = found"
  by (induction s arbitrary: i found) auto

lemma rfind_from_last:
  "c \<notin> set b \<Longrightarrow> rfind_from [c] (a @ c # b) i found = i + int (length a)"
  by (induction a arbitrary: i found) (auto simp: rfind_from_absent)

lemma str_rfind_absent: "c \<notin> set s \<Longrightarrow> str_rfind s [c] = - 1"
  by (simp add: str_rfind_def rfind_from_absent)

lemma str_rfind_last: "c \<notin> set b \<Longrightarrow> str_rfind (a @ c # b) [c] = int (length a)"
  by (simp add: str_rfind_def rfind_from_last)

lemma slice_to_nonneg: "0 \<le> j \<Longrightarrow> slice_to s j = take (nat j) s"
  by (simp add: slice_to_def slice_index_def min_def)

section \<open>Input guard: the checks and their order\<close>

lemma scan_patterns_iff:
  "scan_patterns ps q = (if \<exists>p\<in>set ps. sublist p q then Inl DisallowedPattern else Inr ())"
  by (induction ps) auto

lemma TooLong_not_Empty: "TooLong n \<noteq> EmptyInput"
  by (simp add: TooLong_def EmptyInput_def)

lemma Disallowed_not_Empty: "DisallowedPattern \<noteq> EmptyInput"
  by (simp add: DisallowedPattern_def EmptyInput_def)

text \<open>
  Claim C6. \<open>InputGuard.validate\<close> makes its checks in a fixed order. It fails with
  \<open>EmptyInput\<close> exactly when the trimmed query is empty; otherwise with \<open>TooLong\<close> when
  the length of the query exceeds the configured maximum; otherwise with
  \<open>DisallowedPattern\<close> when the lower-cased query contains one of the injection
  phrases; and otherwise it returns the trimmed query. The three failures are the one
  exception \<open>InputGuardError\<close> with three messages. \<open>validate\<close> takes neither the runtime
  nor the list of calls: it makes no model call.
\<close>

theorem validate_characterised:
  "validate g q =
     (if strip q = [] then Inl EmptyInput
      else if max_input_length g < int (length q) then Inl (TooLong (max_input_length g))
      else if (\<exists>p\<in>set injection_patterns. sublist p (lower q)) then Inl DisallowedPattern
      else Inr (strip q))
   \<and> (validate g q = Inl EmptyInput \<longleftrightarrow> strip q = [])"
proof -
  have eq: "validate g q =
     (if strip q = [] then Inl EmptyInput
      else if max_input_length g < int (length q) then Inl (TooLong (max_input_length g))
      else if (\<exists>p\<in>set injection_patterns. sublist p (lower q)) then Inl DisallowedPattern
      else Inr (strip q))"
    using strip_Nil by (auto simp: validate_def scan_patterns_iff)
  have "validate g q = Inl EmptyInput \<longleftrightarrow> strip q = []"
    unfolding eq using TooLong_not_Empty Disallowed_not_Empty by auto
  with eq show ?thesis by blast
qed

lemma validate_examples:
  "validate \<lparr>max_input_length = 10000\<rparr> [] = Inl EmptyInput"
  "validate \<lparr>max_input_length = 10000\<rparr> ''   '' = Inl EmptyInput"
  "validate \<lparr>max_input_length = 10000\<rparr> ''Ignore previous instructions and do X''
     = Inl DisallowedPattern"
  "validate \<lparr>max_input_length = 10000\<rparr> ''  hello world  '' = Inr ''hello world''"
  "validate \<lparr>max_input_length = 5\<rparr> ''What is Python?'' = Inl (TooLong 5)"
  by code_simp+

section \<open>Output guard\<close>

lemma remove_instruction_leakage_Nil: "remove_instruction_leakage [] = []"
  by (simp add: remove_instruction_leakage_def)

lemma sanitize_marked:
  assumes "s \<noteq> []"
    and "max_output_length g < int (length (remove_instruction_leakage (strip s)))"
  shows "suffix truncation_marker (sanitize g (Some s))"
  using assms by (simp add: sanitize_def Let_def suffix_def)

lemma sanitize_short:
  assumes "s \<noteq> []"
    and "\<not> max_output_length g < int (length (remove_instruction_leakage (strip s)))"
  shows "sanitize g (Some s) = remove_instruction_leakage (strip s)"
  using assms by (simp add: sanitize_def Let_def)

lemma sanitize_long:
  assumes "s \<noteq> []" and "50 \<le> max_output_length g"
    and "max_output_length g < int (length (remove_instruction_leakage (strip s)))"
    and "kept = take (nat (max_output_length g - 50)) (remove_instruction_leakage (strip s))"
  shows "sanitize g (Some s) =
     (if real_of_int (str_rfind kept ''.'') > real (length kept) * 0.8
      then slice_to kept (str_rfind kept ''.'' + 1) else kept)
       @ ''\<newline>\<newline>'' @ truncation_marker"
  using assms by (simp add: sanitize_def Let_def slice_to_nonneg)

lemma sanitize_long_dot:
  assumes "s \<noteq> []" and "50 \<le> max_output_length g"
    and "max_output_length g < int (length (remove_instruction_leakage (strip s)))"
    and "kept = take (nat (max_output_length g - 50)) (remove_instruction_leakage (strip s))"
    and "kept = a @ ''.'' @ b" and "CHR ''.'' \<notin> set b"
  shows "sanitize g (Some s) =
      (if 4 * length kept < 5 * length a then a @ ''.'' else kept)
        @ ''\<newline>\<newline>'' @ truncation_marker"
proof -
  note long = sanitize_long [OF assms(1-4)]
  have k: "str_rfind kept ''.'' = int (length a)"
    using assms(5,6) str_rfind_last [of "CHR ''.''" b a] by simp
  have cmp: "real_of_int (int (length a)) > real (length kept) * 0.8
      \<longleftrightarrow> 4 * length kept < 5 * length a"
  proof -
    have "real (length kept) * 0.8 < real (length a)
        \<longleftrightarrow> real (4 * length kept) < real (5 * length a)"
      by (simp add: field_simps)
    also have "\<dots> \<longleftrightarrow> 4 * length kept < 5 * length a"
      by (simp only: of_nat_less_iff)
    finally show ?thesis by simp
  qed
  have "nat (int (length a) + 1) = Suc (length a)"
    by simp
  then have cutat: "slice_to kept (int (length a) + 1) = a @ ''.''"
    using assms(5) by (simp add: slice_to_nonneg)
  show ?thesis
    unfolding long k using cmp cutat by simp
qed

lemma sanitize_long_no_dot:
  assumes "s \<noteq> []" and "50 \<le> max_output_length g"
    and "max_output_length g < int (length (remove_instruction_leakage (strip s)))"
    and "kept = take (nat (max_output_length g - 50)) (remove_instruction_leakage (strip s))"
    and "CHR ''.'' \<notin> set kept"
  shows "sanitize g (Some s) = kept @ ''\<newline>\<newline>'' @ truncation_marker"
  unfolding sanitize_long [OF assms(1-4)] using assms(5) by (simp add: str_rfind_absent)

text \<open>
  Claim C9, as the code has it. \<open>OutputGuard.sanitize\<close> returns a string on every
  input (it has no failing branch). An empty or missing input gives the apology, which
  contains \<open>try again\<close>. When the trimmed text with the leaked spans removed is longer
  than the configured maximum, the result ends with the marker. When moreover the
  configured maximum is at least 50, the first \<open>max_output_length - 50\<close> characters are
  kept; if the last \<open>.\<close> of the kept text lies past 80 percent of its length, the text
  is cut just behind that \<open>.\<close>; then two newlines and the marker are appended. A text
  that is not longer than the maximum is returned trimmed and with the leaked spans
  removed.
\<close>

theorem sanitize_truncates:
  "sanitize g None = apology \<and> sanitize g (Some []) = apology
   \<and> sublist ''try again'' apology
   \<and> (s \<noteq> [] \<and> max_output_length g < int (length (remove_instruction_leakage (strip s)))
        \<longrightarrow> suffix truncation_marker (sanitize g (Some s)))
   \<and> (s \<noteq> [] \<and> 50 \<le> max_output_length g
        \<and> max_output_length g < int (length (remove_instruction_leakage (strip s)))
        \<and> kept = take (nat (max_output_length g - 50)) (remove_instruction_leakage (strip s))
        \<longrightarrow> (\<forall>a b. kept = a @ ''.'' @ b \<and> CHR ''.'' \<notin> set b \<longrightarrow>
               sanitize g (Some s) =
                 (if 4 * length kept < 5 * length a then a @ ''.'' else kept)
                   @ ''\<newline>\<newline>'' @ truncation_marker)
          \<and> (CHR ''.'' \<notin> set kept \<longrightarrow>
               sanitize g (Some s) = kept @ ''\<newline>\<newline>'' @ truncation_marker))
   \<and> (s \<noteq> [] \<and> \<not> max_output_length g < int (length (remove_instruction_leakage (strip s)))
        \<longrightarrow> sanitize g (Some s) = remove_instruction_leakage (strip s))"
proof -
  have ap: "sanitize g None = apology \<and> sanitize g (Some []) = apology"
    by (simp add: sanitize_def)
  have ta: "sublist ''try again'' apology"
    unfolding apology_def by code_simp
  from ap ta show ?thesis
    using sanitize_marked [of s g] sanitize_short [of s g]
      sanitize_long_dot [of s g kept] sanitize_long_no_dot [of s g kept]
    by blast
qed

theorem sanitize_truncates_witness:
  "sanitize \<lparr>max_output_length = 70\<rparr>
     (Some ''abcdefghijklmnopq. The rest of this answer is long enough to exceed the limit.'')
   = ''abcdefghijklmnopq.\<newline>\<newline>[Response truncated due to length.]''
   \<and> suffix truncation_marker (sanitize \<lparr>max_output_length = 70\<rparr>
     (Some ''abcdefghijklmnopq. The rest of this answer is long enough to exceed the limit.''))
   \<and> sanitize \<lparr>max_output_length = 70\<rparr> (Some ''  hello  '') = ''hello''"
proof -
  let ?g = "\<lparr>max_output_length = 70\<rparr>"
  let ?s = "''abcdefghijklmnopq. The rest of this answer is long enough to exceed the limit.''"
  have h1: "50 \<le> max_output_length ?g" by simp
  have h2: "?s \<noteq> []" by simp
  have h3: "max_output_length ?g < int (length (remove_instruction_leakage (strip ?s)))"
    by code_simp
  have h4: "''abcdefghijklmnopq. T''
      = take (nat (max_output_length ?g - 50)) (remove_instruction_leakage (strip ?s))"
    by code_simp
  have shape: "''abcdefghijklmnopq. T'' = ''abcdefghijklmnopq'' @ ''.'' @ '' T''
      \<and> CHR ''.'' \<notin> set '' T''"
    by simp
  note t = sanitize_truncates [where g = ?g and s = ?s and kept = "''abcdefghijklmnopq. T''"]
  note marked = t [THEN conjunct2, THEN conjunct2, THEN conjunct2, THEN conjunct1,
      THEN mp, OF conjI [OF h2 h3]]
  note cut = t [THEN conjunct2, THEN conjunct2, THEN conjunct2, THEN conjunct2, THEN conjunct1,
      THEN mp, OF conjI [OF h2 conjI [OF h1 conjI [OF h3 h4]]], THEN conjunct1,
      THEN spec, THEN spec, THEN mp, OF shape]
  from cut have one: "sanitize ?g (Some ?s)
      = ''abcdefghijklmnopq.\<newline>\<newline>[Response truncated due to length.]''"
    by (simp add: truncation_marker_def)
  have short: "''  hello  '' \<noteq> []
      \<and> \<not> max_output_length ?g < int (length (remove_instruction_leakage (strip ''  hello  '')))"
    by code_simp
  have same: "remove_instruction_leakage (strip ''  hello  '') = ''hello''"
    by code_simp
  note t' = sanitize_truncates [where g = ?g and s = "''  hello  ''" and kept = "[]"]
  note kept_whole = t' [THEN conjunct2, THEN conjunct2, THEN conjunct2, THEN conjunct2,
      THEN conjunct2, THEN mp, OF short]
  from kept_whole same have two: "sanitize ?g (Some ''  hello  '') = ''hello''"
    by (rule trans)
  from one marked two show ?thesis
    by (intro conjI)
qed

text \<open>The claim as written has every overlong text cut to \<open>max_output_length - 50\<close>
  characters. With a configured maximum of 10 that number is negative, the slice
  drops the last 40 characters instead, and of 100 characters 60 are kept: the result
  has 97 characters.\<close>

theorem sanitize_small_maximum_counterexample:
  "sanitize \<lparr>max_output_length = 10\<rparr> (Some (replicate 100 CHR ''a''))
   = replicate 60 CHR ''a'' @ ''\<newline>\<newline>'' @ truncation_marker
   \<and> length (sanitize \<lparr>max_output_length = 10\<rparr> (Some (replicate 100 CHR ''a''))) = 97"
  by code_simp

text \<open>
  Claim C10. A non-empty input made of whitespace only is not falsy, so it passes the
  first check of \<open>sanitize\<close>; trimming leaves the empty string, and with a configured
  maximum that is not negative the empty string is returned, not the apology.
\<close>

theorem sanitize_whitespace_only:
  assumes "s \<noteq> []" and "\<forall>c\<in>set s. isspace c" and "0 \<le> max_output_length g"
  shows "sanitize g (Some s) = [] \<and> sanitize g (Some s) \<noteq> apology"
  using assms
  by (simp add: sanitize_def strip_all_space remove_instruction_leakage_Nil apology_def)

theorem sanitize_whitespace_only_witness:
  "sanitize \<lparr>max_output_length = 4096\<rparr> (Some [CHR '' '', CHR 0x09, CHR 0x0A]) = []"
  using sanitize_whitespace_only [of "[CHR '' '', CHR 0x09, CHR 0x0A]" "\<lparr>max_output_length = 4096\<rparr>"]
  by (simp add: isspace_def)

section \<open>Query router\<close>

lemma classify_eq:
  assumes "invoke rt cfg ''router'' query (router_system pr) calls = (Inr r, calls')"
  shows "classify rt cfg pr self query calls =
     (case decide rt self (safe_json_parse rt (content r)) of
        Inl e \<Rightarrow> (Inl e, calls')
      | Inr decision \<Rightarrow> (Inr (decision, r), calls'))"
  using assms by (simp add: classify_def)

lemma decide_JObj:
  assumes "py_float rt (case map_of items ''confidence'' of None \<Rightarrow> JFloat 0.5 | Some v \<Rightarrow> v) = Inr conf"
  shows "decide rt self (JObj items) =
     Inr \<lparr>complexity = (case map_of items ''complexity'' of None \<Rightarrow> JStr ''COMPLEX'' | Some v \<Rightarrow> v),
          confidence = conf,
          reason = (case map_of items ''reason'' of None \<Rightarrow> JStr [] | Some v \<Rightarrow> v),
          routed_to =
            (if (case map_of items ''complexity'' of None \<Rightarrow> JStr ''COMPLEX'' | Some v \<Rightarrow> v)
                  = JStr ''COMPLEX'' \<or> conf < confidence_threshold self
             then ''large'' else ''small'')\<rparr>"
  unfolding decide_def py_get_def
  by (simp only: json.simps sum.case assms if_False)

lemma decide_JNull:
  "decide rt self JNull =
     Inr \<lparr>complexity = JStr ''COMPLEX'', confidence = 0.5,
          reason = JStr ''router parse failure - defaulting to large model'',
          routed_to = ''large''\<rparr>"
  by (simp add: decide_def)

text \<open>\<open>decide\<close> returns a decision on \<open>None\<close> and on an object whose confidence converts to
  a float, and on nothing else.\<close>

lemma decide_returns:
  assumes "decide rt self parsed = Inr d"
  shows "parsed = JNull
       \<or> (\<exists>items. parsed = JObj items
            \<and> py_float rt (case map_of items ''confidence'' of None \<Rightarrow> JFloat 0.5 | Some v \<Rightarrow> v)
                = Inr (confidence d))"
proof (cases parsed)
  case (JObj items)
  have half: "(0.5 :: real) = 1 / 2"
    by simp
  from assms show ?thesis
    unfolding JObj half
    by (auto simp: decide_def py_get_def split: sum.splits)
qed (use assms in \<open>auto simp: decide_def py_get_def\<close>)

text \<open>
  Claim C1. When the router call returns and its answer parses to an object whose
  confidence (0.5 when the key is missing) converts to a float, \<open>classify\<close> returns a
  decision that carries the parsed complexity (\<open>COMPLEX\<close> when the key is missing) and
  the parsed confidence, and it routes to \<open>large\<close> exactly when the complexity is
  \<open>COMPLEX\<close> or the confidence is strictly below the configured threshold, and to
  \<open>small\<close> otherwise.
\<close>

theorem classify_routing:
  assumes "invoke rt cfg ''router'' query (router_system pr) calls = (Inr r, calls')"
    and "safe_json_parse rt (content r) = JObj items"
    and "py_float rt (case map_of items ''confidence'' of None \<Rightarrow> JFloat 0.5 | Some v \<Rightarrow> v)
           = Inr conf"
  shows "\<exists>d. classify rt cfg pr self query calls = (Inr (d, r), calls')
           \<and> complexity d
               = (case map_of items ''complexity'' of None \<Rightarrow> JStr ''COMPLEX'' | Some v \<Rightarrow> v)
           \<and> confidence d = conf
           \<and> (routed_to d = ''large'' \<longleftrightarrow>
                complexity d = JStr ''COMPLEX'' \<or> confidence d < confidence_threshold self)
           \<and> (routed_to d = ''small'' \<longleftrightarrow>
                \<not> (complexity d = JStr ''COMPLEX'' \<or> confidence d < confidence_threshold self))"
  unfolding classify_eq [OF assms(1)] assms(2) decide_JObj [OF assms(3)]
  by simp

theorem classify_routing_witness:
  \<open>(case classify (sample_runtime ''{"complexity": "SIMPLE", "confidence": 0.9}'' ''ok'')
           sample_config sample_prompts \<lparr>confidence_threshold = 0.7\<rparr> ''What is Python?'' [] of
      (Inr (d, r), calls) \<Rightarrow>
         routed_to d = ''small'' \<and> complexity d = JStr ''SIMPLE'' \<and> confidence d = 0.9
    | (Inl e, calls) \<Rightarrow> False)\<close>
proof -
  let ?rt = \<open>sample_runtime ''{"complexity": "SIMPLE", "confidence": 0.9}'' ''ok''\<close>
  let ?r = \<open>\<lparr>content = ''{"complexity": "SIMPLE", "confidence": 0.9}'',
             model_name = ''gemini-1.5-flash'', input_tokens = 24, output_tokens = 43,
             total_tokens = 67, estimated_cost_usd = 11 / 100000\<rparr>\<close>
  let ?calls = "[(''router'', [(''system'', ''Classify.''), (''human'', ''What is Python?'')])]"
  let ?items = "[(''complexity'', JStr ''SIMPLE''), (''confidence'', JFloat 0.9)]"
  have inv: "invoke ?rt sample_config ''router'' ''What is Python?''
      (router_system sample_prompts) [] = (Inr ?r, ?calls)"
    by code_simp
  have parsed: "safe_json_parse ?rt (content ?r) = JObj ?items"
    by code_simp
  have conf: "py_float ?rt
      (case map_of ?items ''confidence'' of None \<Rightarrow> JFloat 0.5 | Some v \<Rightarrow> v) = Inr 0.9"
    by code_simp
  from classify_routing [OF inv parsed conf, of "\<lparr>confidence_threshold = 0.7\<rparr>"]
  obtain d where d:
    "classify ?rt sample_config sample_prompts \<lparr>confidence_threshold = 0.7\<rparr>
       ''What is Python?'' [] = (Inr (d, ?r), ?calls)"
    "complexity d
       = (case map_of ?items ''complexity'' of None \<Rightarrow> JStr ''COMPLEX'' | Some v \<Rightarrow> v)"
    "confidence d = 0.9"
    "routed_to d = ''small'' \<longleftrightarrow>
       \<not> (complexity d = JStr ''COMPLEX'' \<or> confidence d < confidence_threshold \<lparr>confidence_threshold = 0.7\<rparr>)"
    by blast
  from d(2) have cx: "complexity d = JStr ''SIMPLE''"
    by simp
  with d(3,4) have "routed_to d = ''small''"
    by simp
  with cx d(3) show ?thesis
    unfolding d(1) by simp
qed

text \<open>The three routing examples with the threshold 0.7.\<close>

lemma classify_examples:
  \<open>map_sum id (routed_to \<circ> fst)
     (fst (classify (sample_runtime ''{"complexity": "SIMPLE", "confidence": 0.9}'' ''ok'')
        sample_config sample_prompts \<lparr>confidence_threshold = 0.7\<rparr> ''What is Python?'' []))
   = Inr ''small''\<close>
  \<open>map_sum id (routed_to \<circ> fst)
     (fst (classify (sample_runtime ''{"complexity": "COMPLEX", "confidence": 0.95}'' ''ok'')
        sample_config sample_prompts \<lparr>confidence_threshold = 0.7\<rparr> ''What is Python?'' []))
   = Inr ''large''\<close>
  \<open>map_sum id (routed_to \<circ> fst)
     (fst (classify (sample_runtime ''{"complexity": "SIMPLE", "confidence": 0.5}'' ''ok'')
        sample_config sample_prompts \<lparr>confidence_threshold = 0.7\<rparr> ''What is Python?'' []))
   = Inr ''large''\<close>
  by code_simp+

text \<open>
  Claim C2, as the code has it. When the router call returns and its answer parses
  neither as a whole nor between its first \<open>{\<close> and its last \<open>}\<close>, \<open>classify\<close> returns
  the decision with complexity \<open>COMPLEX\<close>, confidence 0.5 and tier \<open>large\<close>; its reason
  is the text \<open>router parse failure - defaulting to large model\<close>, not \<open>parse failure\<close>.
\<close>

theorem classify_parse_failure:
  assumes "invoke rt cfg ''router'' query (router_system pr) calls = (Inr r, calls')"
    and "json_loads rt (strip (content r)) = None"
    and "json_loads rt (slice (strip (content r)) (str_find (strip (content r)) ''{'')
            (str_rfind (strip (content r)) ''}'' + 1)) = None"
  shows "classify rt cfg pr self query calls =
     (Inr (\<lparr>complexity = JStr ''COMPLEX'', confidence = 0.5,
            reason = JStr ''router parse failure - defaulting to large model'',
            routed_to = ''large''\<rparr>, r), calls')"
proof -
  have "safe_json_parse rt (content r) = JNull"
    using assms(2,3) by (simp add: safe_json_parse_def Let_def)
  then show ?thesis
    unfolding classify_eq [OF assms(1)] by (simp add: decide_JNull)
qed

theorem classify_parse_failure_witness:
  "classify (sample_runtime ''not json at all'' ''ok'') sample_config sample_prompts
     \<lparr>confidence_threshold = 0.7\<rparr> ''What is Python?'' []
   = (Inr (\<lparr>complexity = JStr ''COMPLEX'', confidence = 0.5,
            reason = JStr ''router parse failure - defaulting to large model'',
            routed_to = ''large''\<rparr>,
           \<lparr>content = ''not json at all'', model_name = ''gemini-1.5-flash'',
            input_tokens = 24, output_tokens = 15, total_tokens = 39,
            estimated_cost_usd = 27 / 500000\<rparr>),
      [(''router'', [(''system'', ''Classify.''), (''human'', ''What is Python?'')])])"
proof -
  let ?rt = "sample_runtime ''not json at all'' ''ok''"
  let ?r = "\<lparr>content = ''not json at all'', model_name = ''gemini-1.5-flash'',
            input_tokens = 24, output_tokens = 15, total_tokens = 39,
            estimated_cost_usd = 27 / 500000\<rparr>"
  let ?calls = "[(''router'', [(''system'', ''Classify.''), (''human'', ''What is Python?'')])]"
  have inv: "invoke ?rt sample_config ''router'' ''What is Python?''
      (router_system sample_prompts) [] = (Inr ?r, ?calls)"
    by code_simp
  have whole: "json_loads ?rt (strip (content ?r)) = None"
    by code_simp
  have part: "json_loads ?rt (slice (strip (content ?r)) (str_find (strip (content ?r)) ''{'')
      (str_rfind (strip (content ?r)) ''}'' + 1)) = None"
    by code_simp
  show ?thesis
    using classify_parse_failure [OF inv whole part] .
qed

text \<open>The claim as written gives the reason \<open>parse failure\<close>; on an answer that is no JSON
  the reason of the decision is another text.\<close>

theorem classify_parse_failure_counterexample:
  "decode_json ''not json at all'' = None
   \<and> (case fst (classify (sample_runtime ''not json at all'' ''ok'') sample_config
          sample_prompts \<lparr>confidence_threshold = 0.7\<rparr> ''What is Python?'' []) of
        Inr (d, r) \<Rightarrow>
          reason d = JStr ''router parse failure - defaulting to large model''
          \<and> reason d \<noteq> JStr ''parse failure''
      | Inl e \<Rightarrow> False)"
  by code_simp

section \<open>Parsing the answer of the router\<close>

lemma find_from_absent: "c \<notin> set s \<Longrightarrow> find_from [c] s i = - 1"
  by (induction s arbitrary: i) auto

lemma str_find_cases:
  "(c \<notin> set s \<and> str_find s [c] = - 1)
   \<or> (\<exists>a b. s = a @ c # b \<and> c \<notin> set a \<and> str_find s [c] = int (length a))"
proof (cases "c \<in> set s")
  case True
  then obtain a b where "s = a @ c # b" "c \<notin> set a"
    by (meson split_list_first)
  then show ?thesis
    using str_find_first [of c a b] by blast
next
  case False
  then show ?thesis
    by (simp add: str_find_def find_from_absent)
qed

lemma str_rfind_cases:
  "(c \<notin> set s \<and> str_rfind s [c] = - 1)
   \<or> (\<exists>a b. s = a @ c # b \<and> c \<notin> set b \<and> str_rfind s [c] = int (length a))"
proof (cases "c \<in> set s")
  case True
  then obtain a b where "s = a @ c # b" "c \<notin> set b"
    by (meson split_list_last)
  then show ?thesis
    using str_rfind_last [of c b a] by blast
next
  case False
  then show ?thesis
    by (simp add: str_rfind_absent)
qed

lemma slice_middle:
  "slice (a @ m @ b) (int (length a)) (int (length a + length m)) = m"
proof -
  have i: "slice_index (length (a @ m @ b)) (int (length a)) = length a"
    by (simp add: slice_index_def)
  have j: "slice_index (length (a @ m @ b)) (int (length a + length m)) = length a + length m"
    by (simp add: slice_index_def)
  show ?thesis
    unfolding slice_def Let_def i j by simp
qed

text \<open>The slice the code takes, when the first \<open>{\<close> and the last \<open>}\<close> are known.\<close>

lemma brace_slice:
  assumes "t = pre @ ''{'' @ mid @ ''}'' @ post"
    and "CHR ''{'' \<notin> set pre" and "CHR ''}'' \<notin> set post"
  shows "str_find t ''{'' \<noteq> - 1 \<and> str_find t ''{'' < str_rfind t ''}'' + 1
       \<and> slice t (str_find t ''{'') (str_rfind t ''}'' + 1) = ''{'' @ mid @ ''}''"
proof -
  have start: "str_find t ''{'' = int (length pre)"
    unfolding assms(1) using str_find_first [OF assms(2)] by simp
  have "t = (pre @ ''{'' @ mid) @ CHR ''}'' # post"
    unfolding assms(1) by simp
  then have "str_rfind t ''}'' = int (length (pre @ ''{'' @ mid))"
    using str_rfind_last [OF assms(3)] by metis
  then have stop: "str_rfind t ''}'' + 1 = int (length pre + length (''{'' @ mid @ ''}''))"
    by simp
  have "t = pre @ (''{'' @ mid @ ''}'') @ post"
    unfolding assms(1) by simp
  then have "slice t (int (length pre)) (int (length pre + length (''{'' @ mid @ ''}'')))
      = ''{'' @ mid @ ''}''"
    using slice_middle [of pre "''{'' @ mid @ ''}''" post] by simp
  then show ?thesis
    unfolding start stop by simp
qed

text \<open>When the code finds a \<open>{\<close> and the last \<open>}\<close> lies behind it, the text has that shape.\<close>

lemma brace_shape:
  assumes "str_find t ''{'' \<noteq> - 1" and "str_find t ''{'' < str_rfind t ''}'' + 1"
  shows "\<exists>pre mid post. t = pre @ ''{'' @ mid @ ''}'' @ post
           \<and> CHR ''{'' \<notin> set pre \<and> CHR ''}'' \<notin> set post"
proof -
  from assms(1) str_find_cases [of "CHR ''{''" t]
  obtain a b where a: "t = a @ CHR ''{'' # b" "CHR ''{'' \<notin> set a"
    "str_find t ''{'' = int (length a)"
    by auto
  from assms(2) a(3) have "str_rfind t ''}'' \<noteq> - 1"
    by auto
  with str_rfind_cases [of "CHR ''}''" t]
  obtain a' b' where b: "t = a' @ CHR ''}'' # b'" "CHR ''}'' \<notin> set b'"
    "str_rfind t ''}'' = int (length a')"
    by auto
  from assms(2) a(3) b(3) have le: "length a \<le> length a'"
    by simp
  from a(1) b(1) have eq: "a @ CHR ''{'' # b = a' @ CHR ''}'' # b'"
    by simp
  have "length a \<noteq> length a'"
  proof
    assume "length a = length a'"
    with eq have "CHR ''{'' # b = CHR ''}'' # b'"
      by simp
    then show False by simp
  qed
  with le have lt: "length a < length a'"
    by simp
  from eq obtain us where "a @ us = a' \<and> CHR ''{'' # b = us @ CHR ''}'' # b'
      \<or> a = a' @ us \<and> us @ CHR ''{'' # b = CHR ''}'' # b'"
    by (auto simp: append_eq_append_conv2)
  with lt have us: "a @ us = a'" "CHR ''{'' # b = us @ CHR ''}'' # b'"
    by auto
  from us(1) lt have "us \<noteq> []"
    by auto
  with us(2) obtain mid where "us = CHR ''{'' # mid" "b = mid @ CHR ''}'' # b'"
    by (cases us) auto
  with a(1) have "t = a @ ''{'' @ mid @ ''}'' @ b'"
    by simp
  with a(2) b(2) show ?thesis
    by blast
qed

text \<open>
  Claim C3, as the code has it. A trimmed text that is JSON as a whole parses to its
  value. Otherwise, when the text contains no code fence, nothing else is tried and
  the result is \<open>None\<close>. When it contains a code fence, the slice from the first \<open>{\<close> to
  the last \<open>}\<close> of the trimmed text is parsed: the result is what that slice parses
  to, and \<open>None\<close> when the slice is no JSON or when there is no \<open>{\<close> with a \<open>}\<close> behind
  it. So a JSON object in a fenced block is parsed when no \<open>{\<close> stands before it and
  no \<open>}\<close> behind it in the text.
\<close>

theorem safe_json_parse_fenced:
  "(\<forall>v. json_loads rt (strip text) = Some v \<longrightarrow> safe_json_parse rt text = v)
   \<and> (json_loads rt (strip text) = None \<and> \<not> sublist code_fence (strip text)
        \<longrightarrow> safe_json_parse rt text = JNull)
   \<and> (json_loads rt (strip text) = None \<and> sublist code_fence (strip text)
        \<longrightarrow> (\<forall>pre mid post.
               strip text = pre @ ''{'' @ mid @ ''}'' @ post
               \<and> CHR ''{'' \<notin> set pre \<and> CHR ''}'' \<notin> set post
               \<longrightarrow> safe_json_parse rt text
                     = (case json_loads rt (''{'' @ mid @ ''}'') of
                          Some v \<Rightarrow> v | None \<Rightarrow> JNull))
          \<and> ((\<nexists>pre mid post.
                 strip text = pre @ ''{'' @ mid @ ''}'' @ post
                 \<and> CHR ''{'' \<notin> set pre \<and> CHR ''}'' \<notin> set post)
               \<longrightarrow> safe_json_parse rt text = JNull))"
proof (intro conjI allI impI)
  fix v
  assume "json_loads rt (strip text) = Some v"
  then show "safe_json_parse rt text = v"
    by (simp add: safe_json_parse_def)
next
  assume "json_loads rt (strip text) = None \<and> \<not> sublist code_fence (strip text)"
  then show "safe_json_parse rt text = JNull"
    by (simp add: safe_json_parse_def)
next
  fix pre mid post
  assume fenced: "json_loads rt (strip text) = None \<and> sublist code_fence (strip text)"
    and shape: "strip text = pre @ ''{'' @ mid @ ''}'' @ post
      \<and> CHR ''{'' \<notin> set pre \<and> CHR ''}'' \<notin> set post"
  from shape have "str_find (strip text) ''{'' \<noteq> - 1
      \<and> str_find (strip text) ''{'' < str_rfind (strip text) ''}'' + 1
      \<and> slice (strip text) (str_find (strip text) ''{'') (str_rfind (strip text) ''}'' + 1)
          = ''{'' @ mid @ ''}''"
    using brace_slice [of "strip text" pre mid post] by blast
  with fenced show "safe_json_parse rt text
      = (case json_loads rt (''{'' @ mid @ ''}'') of Some v \<Rightarrow> v | None \<Rightarrow> JNull)"
    by (simp add: safe_json_parse_def Let_def)
next
  assume fenced: "json_loads rt (strip text) = None \<and> sublist code_fence (strip text)"
    and none: "\<nexists>pre mid post. strip text = pre @ ''{'' @ mid @ ''}'' @ post
      \<and> CHR ''{'' \<notin> set pre \<and> CHR ''}'' \<notin> set post"
  from none brace_shape [of "strip text"]
  have "\<not> (str_find (strip text) ''{'' \<noteq> - 1
      \<and> str_find (strip text) ''{'' < str_rfind (strip text) ''}'' + 1)"
    by blast
  with fenced show "safe_json_parse rt text = JNull"
    by (auto simp: safe_json_parse_def Let_def)
qed

theorem safe_json_parse_fenced_witness:
  \<open>safe_json_parse (sample_runtime [] [])
      ''Here you go: ```json\<newline>{"complexity": "COMPLEX"}\<newline>``` Done.''
   = JObj [(''complexity'', JStr ''COMPLEX'')]
   \<and> safe_json_parse (sample_runtime [] []) ''  {"complexity": "SIMPLE"}  ''
      = JObj [(''complexity'', JStr ''SIMPLE'')]
   \<and> safe_json_parse (sample_runtime [] []) ''The query is simple.'' = JNull
   \<and> safe_json_parse (sample_runtime [] []) ''``` no braces here ```'' = JNull\<close>
proof -
  let ?rt = "sample_runtime [] []"
  let ?text = \<open>''Here you go: ```json\<newline>{"complexity": "COMPLEX"}\<newline>``` Done.''\<close>
  have whole: "json_loads ?rt (strip ?text) = None"
    by code_simp
  have fence: "sublist code_fence (strip ?text)"
    by code_simp
  have shape: \<open>strip ?text
      = ''Here you go: ```json\<newline>'' @ ''{'' @ ''"complexity": "COMPLEX"'' @ ''}''
          @ ''\<newline>``` Done.''\<close>
    by code_simp
  have pre: "CHR ''{'' \<notin> set ''Here you go: ```json\<newline>''"
    by simp
  have post: "CHR ''}'' \<notin> set ''\<newline>``` Done.''"
    by simp
  have inner: \<open>(case json_loads ?rt (''{'' @ ''"complexity": "COMPLEX"'' @ ''}'') of
        Some v \<Rightarrow> v | None \<Rightarrow> JNull) = JObj [(''complexity'', JStr ''COMPLEX'')]\<close>
    by code_simp
  note fenced = safe_json_parse_fenced [of ?rt ?text, THEN conjunct2, THEN conjunct2,
      THEN mp, OF conjI [OF whole fence], THEN conjunct1]
  note sliced = fenced [THEN spec, THEN spec, THEN spec, THEN mp,
      OF conjI [OF shape conjI [OF pre post]]]
  from sliced inner
  have one: "safe_json_parse ?rt ?text = JObj [(''complexity'', JStr ''COMPLEX'')]"
    by (rule trans)
  have direct: \<open>json_loads ?rt (strip ''  {"complexity": "SIMPLE"}  '')
      = Some (JObj [(''complexity'', JStr ''SIMPLE'')])\<close>
    by code_simp
  have two: \<open>safe_json_parse ?rt ''  {"complexity": "SIMPLE"}  ''
      = JObj [(''complexity'', JStr ''SIMPLE'')]\<close>
    using safe_json_parse_fenced [of ?rt \<open>''  {"complexity": "SIMPLE"}  ''\<close>,
      THEN conjunct1, THEN spec, THEN mp, OF direct] .
  have prose: "json_loads ?rt (strip ''The query is simple.'') = None
      \<and> \<not> sublist code_fence (strip ''The query is simple.'')"
    by code_simp
  have three: "safe_json_parse ?rt ''The query is simple.'' = JNull"
    using safe_json_parse_fenced [of ?rt "''The query is simple.''",
      THEN conjunct2, THEN conjunct1, THEN mp, OF prose] .
  have bare: "json_loads ?rt (strip ''``` no braces here ```'') = None
      \<and> sublist code_fence (strip ''``` no braces here ```'')"
    by code_simp
  have no_brace: "CHR ''{'' \<notin> set (strip ''``` no braces here ```'')"
    by code_simp
  have shapeless: "\<nexists>pre mid post.
      strip ''``` no braces here ```'' = pre @ ''{'' @ mid @ ''}'' @ post
      \<and> CHR ''{'' \<notin> set pre \<and> CHR ''}'' \<notin> set post"
  proof
    assume "\<exists>pre mid post. strip ''``` no braces here ```'' = pre @ ''{'' @ mid @ ''}'' @ post
      \<and> CHR ''{'' \<notin> set pre \<and> CHR ''}'' \<notin> set post"
    then obtain pre mid post where
      "strip ''``` no braces here ```'' = pre @ ''{'' @ mid @ ''}'' @ post"
      by blast
    then have "CHR ''{'' \<in> set (strip ''``` no braces here ```'')"
      by simp
    with no_brace show False ..
  qed
  have four: "safe_json_parse ?rt ''``` no braces here ```'' = JNull"
    using safe_json_parse_fenced [of ?rt "''``` no braces here ```''",
      THEN conjunct2, THEN conjunct2, THEN mp, OF bare, THEN conjunct2, THEN mp, OF shapeless] .
  from one two three four show ?thesis
    by (intro conjI)
qed

text \<open>The claim as written has every JSON object between prose or in a fenced block
  parsed. Without a code fence the code returns \<open>None\<close>, although the slice from the
  first \<open>{\<close> to the last \<open>}\<close> is JSON; and with a code fence it returns \<open>None\<close> when the
  prose holds a brace of its own, although the fenced object is JSON.\<close>

theorem safe_json_parse_prose_counterexample:
  \<open>safe_json_parse (sample_runtime [] [])
      ''Result: {"complexity": "SIMPLE", "confidence": 0.9}'' = JNull
   \<and> decode_json
        (slice ''Result: {"complexity": "SIMPLE", "confidence": 0.9}''
           (str_find ''Result: {"complexity": "SIMPLE", "confidence": 0.9}'' ''{'')
           (str_rfind ''Result: {"complexity": "SIMPLE", "confidence": 0.9}'' ''}'' + 1))
      = Some (JObj [(''complexity'', JStr ''SIMPLE''), (''confidence'', JFloat 0.9)])
   \<and> safe_json_parse (sample_runtime [] [])
        ''Here {see} ```json\<newline>{"a": 1}\<newline>```'' = JNull
   \<and> decode_json ''{"a": 1}'' = Some (JObj [(''a'', JInt 1)])\<close>
  by code_simp

section \<open>Answers of the router that make the pipeline fail\<close>

text \<open>
  Claim C4 at two answers of the router. The query passes the input guard. An answer
  that is JSON but no object makes \<open>run\<close> fail with \<open>AttributeError\<close>, and an object
  whose confidence is a word makes it fail with \<open>ValueError\<close>; in both runs the router
  is the only model called.
\<close>

theorem run_fails_on_router_answer:
  \<open>validate (InputGuard_init sample_config) ''What is Python?'' = Inr ''What is Python?''
   \<and> run (sample_runtime ''[1, 2]'' ''Python is a language.'') sample_config sample_prompts
        ''What is Python?'' None None []
      = (Inl AttributeError,
         [(''router'', [(''system'', ''Classify.''), (''human'', ''What is Python?'')])])
   \<and> run (sample_runtime ''{"complexity": "SIMPLE", "confidence": "high"}''
          ''Python is a language.'') sample_config sample_prompts
        ''What is Python?'' None None []
      = (Inl ValueError,
         [(''router'', [(''system'', ''Classify.''), (''human'', ''What is Python?'')])])\<close>
  by code_simp

section \<open>Pipeline: tokens and cost of a run\<close>

lemma py_round_multiple: "py_round (of_int k / 10 ^ n) n = of_int k / 10 ^ n"
  by (simp add: py_round_def)

lemma py_round_is_multiple: "\<exists>k. py_round x n = of_int k / 10 ^ n"
  unfolding py_round_def Let_def by blast

lemma py_round_idem: "py_round (py_round x n) n = py_round x n"
proof -
  obtain k where "py_round x n = of_int k / 10 ^ n"
    using py_round_is_multiple by blast
  then show ?thesis
    by (simp only: py_round_multiple)
qed

lemma invoke_result:
  assumes "invoke rt cfg tier prompt system_prompt calls = (Inr r, calls')"
  shows "total_tokens r = input_tokens r + output_tokens r
       \<and> py_round (estimated_cost_usd r) 6 = estimated_cost_usd r
       \<and> (\<exists>messages. calls' = calls @ [(tier, messages)])"
proof -
  from assms obtain mc where mc: "models cfg tier = Some mc"
    by (auto simp: invoke_def split: option.splits)
  from assms mc obtain answer cost where
    r: "r = \<lparr>content = answer, model_name = name mc,
             input_tokens = estimate_tokens rt (system_prompt @ prompt),
             output_tokens = estimate_tokens rt answer,
             total_tokens = estimate_tokens rt (system_prompt @ prompt) + estimate_tokens rt answer,
             estimated_cost_usd = cost\<rparr>"
    and cost: "estimate_cost rt cfg tier (estimate_tokens rt (system_prompt @ prompt))
                 (estimate_tokens rt answer) = Inr cost"
    and calls: "calls' = calls @ [(tier,
        (if system_prompt \<noteq> [] then [(''system'', system_prompt)] else []) @ [(''human'', prompt)])]"
    by (auto simp: invoke_def Let_def split: sum.splits)
  from cost mc obtain x where "cost = py_round x 6"
    by (auto simp: estimate_cost_def Let_def)
  then have "py_round cost 6 = cost"
    by (simp add: py_round_idem)
  with r calls show ?thesis by simp
qed

lemma classify_result:
  assumes "classify rt cfg pr self query calls = (Inr (d, rr), calls')"
  shows "invoke rt cfg ''router'' query (router_system pr) calls = (Inr rr, calls')"
  using assms by (auto simp: classify_def split: prod.splits sum.splits)

lemma run_forced_eq:
  assumes "force_model = Some tier" and "tier = ''small'' \<or> tier = ''large''"
  shows "run rt cfg pr query context force_model calls =
     (case validate (InputGuard_init cfg) query of
        Inl e \<Rightarrow> (Inl e, calls)
      | Inr _ \<Rightarrow>
          (case invoke rt cfg tier (full_prompt query context) (agent_system pr) calls of
             (Inl e, calls'') \<Rightarrow> (Inl e, calls'')
           | (Inr response, calls'') \<Rightarrow>
               (Inr \<lparr>res_answer = sanitize (OutputGuard_init cfg) (Some (content response)),
                     res_model_used = model_name response,
                     res_complexity = JStr ''FORCED'',
                     res_confidence = 1,
                     res_tokens_used = 0 + total_tokens response,
                     res_estimated_cost_usd = py_round (0 + estimated_cost_usd response) 6\<rparr>,
                calls'')))"
  using assms by (auto simp: run_def route_def split: sum.splits prod.splits)

lemma run_routed_eq:
  assumes "\<not> (force_model = Some ''large'' \<or> force_model = Some ''small'')"
  shows "run rt cfg pr query context force_model calls =
     (case validate (InputGuard_init cfg) query of
        Inl e \<Rightarrow> (Inl e, calls)
      | Inr _ \<Rightarrow>
          (case classify rt cfg pr (QueryRouter_init cfg) query calls of
             (Inl e, calls') \<Rightarrow> (Inl e, calls')
           | (Inr (d, rr), calls') \<Rightarrow>
               (case invoke rt cfg (routed_to d) (full_prompt query context) (agent_system pr)
                       calls' of
                  (Inl e, calls'') \<Rightarrow> (Inl e, calls'')
                | (Inr response, calls'') \<Rightarrow>
                    (Inr \<lparr>res_answer = sanitize (OutputGuard_init cfg) (Some (content response)),
                          res_model_used = model_name response,
                          res_complexity = complexity d,
                          res_confidence = confidence d,
                          res_tokens_used = total_tokens rr + total_tokens response,
                          res_estimated_cost_usd =
                            py_round (estimated_cost_usd rr + estimated_cost_usd response) 6\<rparr>,
                     calls''))))"
  using assms by (auto simp: run_def route_def split: sum.splits prod.splits)

text \<open>A query the input guard rejects ends the run with the guard's error, before any
  call to a model.\<close>

lemma run_rejected:
  "validate (InputGuard_init cfg) query = Inl e
   \<Longrightarrow> run rt cfg pr query context force_model calls = (Inl e, calls)"
  by (simp add: run_def)

text \<open>
  Claim C5. In a run that returns an outcome, \<open>tokens_used\<close> is the total of the router
  call (0 when a tier was forced) plus the total of the call to the selected tier,
  \<open>estimated_cost_usd\<close> is the cost of the router call (0 when forced) plus the cost of
  the call to the selected tier, rounded to 6 decimals, and every result of \<open>invoke\<close>
  has \<open>total_tokens = input_tokens + output_tokens\<close>.
\<close>

theorem run_accounting:
  assumes "run rt cfg pr query context force_model calls = (Inr out, calls'')"
  shows "(if force_model = Some ''large'' \<or> force_model = Some ''small''
          then \<exists>tier resp.
                 force_model = Some tier
                 \<and> invoke rt cfg tier (full_prompt query context) (agent_system pr) calls
                     = (Inr resp, calls'')
                 \<and> res_tokens_used out = 0 + total_tokens resp
                 \<and> res_estimated_cost_usd out = py_round (0 + estimated_cost_usd resp) 6
          else \<exists>d rr calls' resp.
                 classify rt cfg pr (QueryRouter_init cfg) query calls = (Inr (d, rr), calls')
                 \<and> invoke rt cfg ''router'' query (router_system pr) calls = (Inr rr, calls')
                 \<and> invoke rt cfg (routed_to d) (full_prompt query context) (agent_system pr) calls'
                     = (Inr resp, calls'')
                 \<and> res_tokens_used out = total_tokens rr + total_tokens resp
                 \<and> res_estimated_cost_usd out
                     = py_round (estimated_cost_usd rr + estimated_cost_usd resp) 6)
       \<and> (\<forall>tier prompt system_prompt c r c'.
             invoke rt cfg tier prompt system_prompt c = (Inr r, c')
             \<longrightarrow> total_tokens r = input_tokens r + output_tokens r)"
proof (cases "force_model = Some ''large'' \<or> force_model = Some ''small''")
  case True
  then obtain tier where tier: "force_model = Some tier" "tier = ''small'' \<or> tier = ''large''"
    by auto
  from assms have "\<exists>resp.
      invoke rt cfg tier (full_prompt query context) (agent_system pr) calls = (Inr resp, calls'')
      \<and> res_tokens_used out = 0 + total_tokens resp
      \<and> res_estimated_cost_usd out = py_round (0 + estimated_cost_usd resp) 6"
    unfolding run_forced_eq [OF tier]
    by (auto split: sum.splits prod.splits)
  with True tier(1) show ?thesis
    using invoke_result by auto
next
  case False
  from assms have "\<exists>d rr calls' resp.
      classify rt cfg pr (QueryRouter_init cfg) query calls = (Inr (d, rr), calls')
      \<and> invoke rt cfg (routed_to d) (full_prompt query context) (agent_system pr) calls'
          = (Inr resp, calls'')
      \<and> res_tokens_used out = total_tokens rr + total_tokens resp
      \<and> res_estimated_cost_usd out
          = py_round (estimated_cost_usd rr + estimated_cost_usd resp) 6"
    unfolding run_routed_eq [OF False]
    by (auto split: sum.splits prod.splits)
  then obtain d rr calls' resp where *:
    "classify rt cfg pr (QueryRouter_init cfg) query calls = (Inr (d, rr), calls')"
    "invoke rt cfg (routed_to d) (full_prompt query context) (agent_system pr) calls'
       = (Inr resp, calls'')"
    "res_tokens_used out = total_tokens rr + total_tokens resp"
    "res_estimated_cost_usd out = py_round (estimated_cost_usd rr + estimated_cost_usd resp) 6"
    by blast
  note classify_result [OF *(1)]
  with * False show ?thesis
    using invoke_result by auto
qed

theorem run_accounting_witness:
  \<open>run (sample_runtime ''{"complexity": "SIMPLE", "confidence": 0.9}'' ''Python is a language.'')
      sample_config sample_prompts ''What is Python?'' None None []
   = (Inr \<lparr>res_answer = ''Python is a language.'', res_model_used = ''gemini-1.5-flash'',
           res_complexity = JStr ''SIMPLE'', res_confidence = 0.9,
           res_tokens_used = 110, res_estimated_cost_usd = 174 / 1000000\<rparr>,
      [(''router'', [(''system'', ''Classify.''), (''human'', ''What is Python?'')]),
       (''small'', [(''system'', ''Answer.''), (''human'', ''What is Python?'')])])
   \<and> (\<exists>d rr calls' resp.
         classify (sample_runtime ''{"complexity": "SIMPLE", "confidence": 0.9}''
                     ''Python is a language.'')
           sample_config sample_prompts (QueryRouter_init sample_config) ''What is Python?'' []
           = (Inr (d, rr), calls')
         \<and> invoke (sample_runtime ''{"complexity": "SIMPLE", "confidence": 0.9}''
                     ''Python is a language.'')
             sample_config ''router'' ''What is Python?'' (router_system sample_prompts) []
             = (Inr rr, calls')
         \<and> invoke (sample_runtime ''{"complexity": "SIMPLE", "confidence": 0.9}''
                     ''Python is a language.'')
             sample_config (routed_to d) (full_prompt ''What is Python?'' None)
             (agent_system sample_prompts) calls'
             = (Inr resp,
                [(''router'', [(''system'', ''Classify.''), (''human'', ''What is Python?'')]),
                 (''small'', [(''system'', ''Answer.''), (''human'', ''What is Python?'')])])
         \<and> res_tokens_used
              \<lparr>res_answer = ''Python is a language.'', res_model_used = ''gemini-1.5-flash'',
               res_complexity = JStr ''SIMPLE'', res_confidence = 0.9,
               res_tokens_used = 110, res_estimated_cost_usd = 174 / 1000000\<rparr>
             = total_tokens rr + total_tokens resp
         \<and> res_estimated_cost_usd
              \<lparr>res_answer = ''Python is a language.'', res_model_used = ''gemini-1.5-flash'',
               res_complexity = JStr ''SIMPLE'', res_confidence = 0.9,
               res_tokens_used = 110, res_estimated_cost_usd = 174 / 1000000\<rparr>
             = py_round (estimated_cost_usd rr + estimated_cost_usd resp) 6)\<close>
  (is "?R \<and> ?E")
proof -
  have run: ?R
    by code_simp
  have not_forced: "\<not> (None = Some ''large'' \<or> None = Some ''small'')"
    by simp
  from run_accounting [OF run, THEN conjunct1] have ?E
    unfolding if_not_P [OF not_forced] .
  with run show ?thesis
    by (rule conjI)
qed

text \<open>
  Claim C7. When \<open>force_model\<close> is \<open>small\<close> or \<open>large\<close> and the run returns an outcome,
  its complexity is \<open>FORCED\<close> and its confidence is 1; exactly one call was made to a
  hosted model, the one to the forced tier, so the router was not called; and the
  tokens and the cost of the outcome are those of that call.
\<close>

theorem run_forced:
  assumes "force_model = Some tier" and "tier = ''small'' \<or> tier = ''large''"
    and "run rt cfg pr query context force_model calls = (Inr out, calls'')"
  shows "res_complexity out = JStr ''FORCED'' \<and> res_confidence out = 1
       \<and> (\<exists>resp messages.
             invoke rt cfg tier (full_prompt query context) (agent_system pr) calls
               = (Inr resp, calls'')
             \<and> calls'' = calls @ [(tier, messages)]
             \<and> res_tokens_used out = total_tokens resp
             \<and> res_estimated_cost_usd out = estimated_cost_usd resp)"
proof -
  from assms(3) obtain resp where resp:
    "invoke rt cfg tier (full_prompt query context) (agent_system pr) calls = (Inr resp, calls'')"
    "out = \<lparr>res_answer = sanitize (OutputGuard_init cfg) (Some (content resp)),
            res_model_used = model_name resp,
            res_complexity = JStr ''FORCED'',
            res_confidence = 1,
            res_tokens_used = 0 + total_tokens resp,
            res_estimated_cost_usd = py_round (0 + estimated_cost_usd resp) 6\<rparr>"
    unfolding run_forced_eq [OF assms(1,2)]
    by (auto split: sum.splits prod.splits)
  from invoke_result [OF resp(1)] resp(2) resp(1) show ?thesis
    by auto
qed

theorem run_forced_witness:
  "run (sample_runtime ''not json at all'' ''Python is a language.'')
      sample_config sample_prompts ''What is Python?'' None (Some ''small'') []
   = (Inr \<lparr>res_answer = ''Python is a language.'', res_model_used = ''gemini-1.5-flash'',
           res_complexity = JStr ''FORCED'', res_confidence = 1,
           res_tokens_used = 43, res_estimated_cost_usd = 64 / 1000000\<rparr>,
      [(''small'', [(''system'', ''Answer.''), (''human'', ''What is Python?'')])])
   \<and> (\<exists>resp.
         invoke (sample_runtime ''not json at all'' ''Python is a language.'') sample_config
           ''small'' (full_prompt ''What is Python?'' None) (agent_system sample_prompts) []
           = (Inr resp, [(''small'', [(''system'', ''Answer.''), (''human'', ''What is Python?'')])])
         \<and> total_tokens resp = 43 \<and> estimated_cost_usd resp = 64 / 1000000)"
proof -
  let ?rt = "sample_runtime ''not json at all'' ''Python is a language.''"
  let ?out = "\<lparr>res_answer = ''Python is a language.'', res_model_used = ''gemini-1.5-flash'',
           res_complexity = JStr ''FORCED'', res_confidence = 1,
           res_tokens_used = 43, res_estimated_cost_usd = 64 / 1000000\<rparr>"
  let ?c = "[(''small'', [(''system'', ''Answer.''), (''human'', ''What is Python?'')])]"
  have run: "run ?rt sample_config sample_prompts ''What is Python?'' None (Some ''small'') []
      = (Inr ?out, ?c)"
    by code_simp
  have tier: "''small'' = ''small'' \<or> ''small'' = ''large''"
    by simp
  from run_forced [OF refl tier run] run show ?thesis
    by auto
qed

section \<open>Cost tracker\<close>

text \<open>
  Claim C8, as the code has it. On the empty log every field of the summary is 0. On
  a log that is not empty, with a \<open>large\<close> tier configured, \<open>get_summary\<close> returns; its
  hypothetical cost is \<open>total_tokens / 1000\<close> times the sum of the two rates of the
  large tier, halved; its savings percentage is
  \<open>max(0, round((hypothetical - actual) / hypothetical * 100, 1))\<close> when the hypothetical
  cost is positive and 0 otherwise, where \<open>actual\<close> is the sum of the recorded costs as
  it is, not rounded; \<open>total_cost_usd\<close> is that sum rounded to 6 decimals. Every
  operation is the interpreter's on floats, in the order of the code. The percentage
  is never negative.
\<close>

theorem get_summary_savings:
  "get_summary rt cfg []
     = Inr \<lparr>total_requests = 0, sum_total_tokens = 0, total_cost_usd = 0,
            routed_to_small = 0, routed_to_large = 0, cost_savings_pct = 0\<rparr>
   \<and> (records \<noteq> [] \<and> models cfg ''large'' = Some lc
        \<and> rate_in = (case cost_per_1k_input lc of None \<Rightarrow> 0 | Some r \<Rightarrow> r)
        \<and> rate_out = (case cost_per_1k_output lc of None \<Rightarrow> 0 | Some r \<Rightarrow> r)
        \<and> hypothetical
            = float_div rt
                (float_mul rt (int_truediv rt (sum_list (map rec_tokens_used records)) 1000)
                   (float_add rt rate_in rate_out))
                2
        \<and> actual = float_sum rt (map rec_estimated_cost_usd records)
        \<longrightarrow> (\<exists>s. get_summary rt cfg records = Inr s
               \<and> cost_savings_pct s
                   = (if hypothetical > 0
                      then max 0 (py_round
                             (float_mul rt
                                (float_div rt (float_sub rt hypothetical actual) hypothetical)
                                100) 1)
                      else 0)
               \<and> total_cost_usd s = py_round actual 6))
   \<and> (\<forall>s. get_summary rt cfg records = Inr s \<longrightarrow> 0 \<le> cost_savings_pct s)"
proof (intro conjI impI allI)
  show "get_summary rt cfg []
     = Inr \<lparr>total_requests = 0, sum_total_tokens = 0, total_cost_usd = 0,
            routed_to_small = 0, routed_to_large = 0, cost_savings_pct = 0\<rparr>"
    by (simp add: get_summary_def)
next
  assume a: "records \<noteq> [] \<and> models cfg ''large'' = Some lc
        \<and> rate_in = (case cost_per_1k_input lc of None \<Rightarrow> 0 | Some r \<Rightarrow> r)
        \<and> rate_out = (case cost_per_1k_output lc of None \<Rightarrow> 0 | Some r \<Rightarrow> r)
        \<and> hypothetical
            = float_div rt
                (float_mul rt (int_truediv rt (sum_list (map rec_tokens_used records)) 1000)
                   (float_add rt rate_in rate_out))
                2
        \<and> actual = float_sum rt (map rec_estimated_cost_usd records)"
  then show "\<exists>s. get_summary rt cfg records = Inr s
               \<and> cost_savings_pct s
                   = (if hypothetical > 0
                      then max 0 (py_round
                             (float_mul rt
                                (float_div rt (float_sub rt hypothetical actual) hypothetical)
                                100) 1)
                      else 0)
               \<and> total_cost_usd s = py_round actual 6"
    by (simp add: get_summary_def Let_def max.commute)
next
  fix s
  assume "get_summary rt cfg records = Inr s"
  then show "0 \<le> cost_savings_pct s"
    by (auto simp: get_summary_def Let_def split: if_splits option.splits)
qed

theorem get_summary_savings_witness:
  "\<exists>s. get_summary (sample_runtime [] []) sample_config
          [\<lparr>rec_model_used = ''gemini-1.5-flash'', rec_tokens_used = 1000,
            rec_estimated_cost_usd = 16 / 10000000, rec_complexity = JStr ''SIMPLE''\<rparr>,
           \<lparr>rec_model_used = ''gemini-1.5-pro'', rec_tokens_used = 1000,
            rec_estimated_cost_usd = 1 / 1000, rec_complexity = JStr ''COMPLEX''\<rparr>] = Inr s
        \<and> cost_savings_pct s = 97.5 \<and> total_cost_usd s = 1002 / 1000000"
proof -
  let ?rt = "sample_runtime [] []"
  let ?records = "[\<lparr>rec_model_used = ''gemini-1.5-flash'', rec_tokens_used = 1000,
            rec_estimated_cost_usd = 16 / 10000000, rec_complexity = JStr ''SIMPLE''\<rparr>,
           \<lparr>rec_model_used = ''gemini-1.5-pro'', rec_tokens_used = 1000,
            rec_estimated_cost_usd = 1 / 1000, rec_complexity = JStr ''COMPLEX''\<rparr>]"
  let ?lc = "\<lparr>name = ''gemini-1.5-pro'',
             cost_per_1k_input = Some (10 / 1000), cost_per_1k_output = Some (30 / 1000)\<rparr>"
  have pre: "?records \<noteq> [] \<and> models sample_config ''large'' = Some ?lc
      \<and> (10 / 1000 :: real) = (case cost_per_1k_input ?lc of None \<Rightarrow> 0 | Some r \<Rightarrow> r)
      \<and> (30 / 1000 :: real) = (case cost_per_1k_output ?lc of None \<Rightarrow> 0 | Some r \<Rightarrow> r)
      \<and> (4 / 100 :: real)
          = float_div ?rt
              (float_mul ?rt (int_truediv ?rt (sum_list (map rec_tokens_used ?records)) 1000)
                 (float_add ?rt (10 / 1000) (30 / 1000)))
              2
      \<and> (10016 / 10000000 :: real) = float_sum ?rt (map rec_estimated_cost_usd ?records)"
    by (simp add: sample_config_def sample_runtime_def)
  have pct: "(if (4 / 100 :: real) > 0
      then max 0 (py_round
             (float_mul ?rt
                (float_div ?rt (float_sub ?rt (4 / 100) (10016 / 10000000)) (4 / 100)) 100) 1)
      else 0) = (97.5 :: real)"
    by (simp add: py_round_def sample_runtime_def)
  have tot: "py_round (10016 / 10000000) 6 = 1002 / 1000000"
    by (simp add: py_round_def)
  from get_summary_savings [where rt = ?rt and cfg = sample_config and records = ?records
      and lc = ?lc and rate_in = "10 / 1000" and rate_out = "30 / 1000"
      and hypothetical = "4 / 100" and actual = "10016 / 10000000",
      THEN conjunct2, THEN conjunct1, THEN mp, OF pre]
  obtain s where s: "get_summary ?rt sample_config ?records = Inr s"
    and p: "cost_savings_pct s = (if (4 / 100 :: real) > 0
      then max 0 (py_round
             (float_mul ?rt
                (float_div ?rt (float_sub ?rt (4 / 100) (10016 / 10000000)) (4 / 100)) 100) 1)
      else 0)"
    and c: "total_cost_usd s = py_round (10016 / 10000000) 6"
    by (elim exE conjE)
  from p pct have "cost_savings_pct s = 97.5"
    by (rule trans)
  moreover from c tot have "total_cost_usd s = 1002 / 1000000"
    by (rule trans)
  ultimately show ?thesis
    using s by (intro exI conjI)
qed

text \<open>The claim as written takes the rounded \<open>total_cost_usd\<close> in the percentage. On a
  log of one record of 1 token that cost 0.0000004, the hypothetical cost is 0.00002,
  \<open>total_cost_usd\<close> is 0, and the code reports 98 where the claim's formula gives 100.\<close>

theorem get_summary_rounded_total_counterexample:
  "(case get_summary (sample_runtime [] []) sample_config
           [\<lparr>rec_model_used = ''gemini-1.5-flash'', rec_tokens_used = 1,
             rec_estimated_cost_usd = 4 / 10000000, rec_complexity = JStr ''SIMPLE''\<rparr>] of
      Inr s \<Rightarrow>
        cost_savings_pct s = 98 \<and> total_cost_usd s = 0
        \<and> (of_int (sum_total_tokens s) / 1000) * ((10 / 1000 + 30 / 1000) / 2) = (2 / 100000 :: real)
        \<and> max 0 (py_round ((2 / 100000 - total_cost_usd s) / (2 / 100000) * 100) 1) = (100 :: real)
    | Inl e \<Rightarrow> False)"
  by code_simp

end
